theory Spec2Isabelle
  imports Complex_Main
begin

section \<open>Data model (models.py)\<close>

text \<open>
  The enumerations of models.py. \<open>UserRole\<close> and \<open>OrderStatus\<close> are plain
  \<^verbatim>\<open>enum.Enum\<close> classes whose member names equal their string values.
\<close>

datatype UserRole = customer | worker | admin

datatype OrderStatus =
  created | claimed | picked_up | in_progress | delivered | completed | cancelled

text \<open>
  A Python \<^verbatim>\<open>datetime\<close> is either naive (no \<^verbatim>\<open>tzinfo\<close>) or aware. A naive value is
  its wall-clock reading in microseconds; an aware value is its wall-clock reading and
  the UTC offset of its \<^verbatim>\<open>tzinfo\<close>, both in microseconds, so that its UTC instant is
  the reading minus the offset. Comparing a naive with an aware value raises
  \<^verbatim>\<open>TypeError\<close>.
\<close>

datatype datetime = Naive int | Aware int int

text \<open>
  The exceptions of utils/exceptions\_util.py that the services raise (message, and the
  optional \<^verbatim>\<open>field\<close> of a \<^verbatim>\<open>ValidationError\<close>), Python's own \<^verbatim>\<open>TypeError\<close>, and
  the \<^verbatim>\<open>IntegrityError\<close> of a commit that breaks a NOT NULL constraint.
\<close>

datatype error =
  NotFoundError string
| ValidationError string "string option"
| TypeError
| IntegrityError

text \<open>
  The \<^verbatim>\<open>role\<close> argument of \<^verbatim>\<open>cancel_order\<close> is annotated \<^verbatim>\<open>UserRole\<close>, but the routes
  pass the string of the JWT claim. Both kinds of value are kept apart, since
  \<^verbatim>\<open>==\<close> between a string and a member of a plain \<^verbatim>\<open>Enum\<close> is always false.
\<close>

datatype role_value = RoleEnum UserRole | RoleStr string

text \<open>
  Table rows. Only the columns that the service functions read or write are kept; the
  \<^verbatim>\<open>created_at\<close>/\<^verbatim>\<open>updated_at\<close> columns are filled by column defaults of the
  persistence layer and by no service function. Prices and fees are Python floats,
  idealised as reals. \<^verbatim>\<open>address_id\<close> is declared \<^verbatim>\<open>nullable=False\<close>, so a row always
  has one. The two \<^verbatim>\<open>db.DateTime\<close> columns carry no time zone: a row that was
  written and read back holds naive values. Foreign keys are not enforced.
\<close>

record User =
  user_id :: int
  user_name :: string
  user_role :: UserRole

record Customer =
  cust_id :: int
  assigned_worker_id :: "int option"

record Address =
  addr_id :: int
  addr_customer_id :: int

record Order =
  order_id :: int
  customer_id :: int
  worker_id :: "int option"
  pickup_time :: datetime
  delivery_time :: datetime
  status :: OrderStatus
  price :: real
  cancellation_fee :: real
  created_by :: int
  address_id :: int

record OrderStatusHistory =
  hist_id :: int
  hist_order_id :: int
  hist_status :: OrderStatus
  status_changed_by :: int
  changed_at :: int

text \<open>The database: one list of rows per table.\<close>

record db =
  users :: "User list"
  customers :: "Customer list"
  addresses :: "Address list"
  orders :: "Order list"
  order_status_history :: "OrderStatusHistory list"

section \<open>Cancellation (utils/cancel\_order\_util.py)\<close>

text \<open>
  \<^verbatim>\<open>pickup_time.replace(tzinfo=ZoneInfo("Asia/Karachi")).astimezone(timezone.utc)\<close> for a
  naive value; an aware value is taken as it is. The zone database is external: the
  UTC offset of Asia/Karachi at a wall-clock reading is the parameter \<open>karachi\<close>
  (microseconds). The result is the UTC instant.
\<close>

fun ensure_utc :: "(int \<Rightarrow> int) \<Rightarrow> datetime \<Rightarrow> int" where
  "ensure_utc karachi (Naive w) = w - karachi w"
| "ensure_utc karachi (Aware w off) = w - off"

text \<open>\<^verbatim>\<open>timedelta(hours=1)\<close> in microseconds.\<close>

definition one_hour :: int where
  "one_hour = 3600000000"

text \<open>
  \<^verbatim>\<open>filters = {"id": order_id}\<close>, extended by \<^verbatim>\<open>customer_id\<close> when
  \<^verbatim>\<open>role == UserRole.customer\<close>; then \<^verbatim>\<open>Order.query.filter_by(**filters).first()\<close>.
\<close>

definition query_order :: "role_value \<Rightarrow> int \<Rightarrow> int \<Rightarrow> Order list \<Rightarrow> Order option" where
  "query_order rl uid oid os =
     (if rl = RoleEnum customer
      then find (\<lambda>r. order_id r = oid \<and> customer_id r = uid) os
      else find (\<lambda>r. order_id r = oid) os)"

text \<open>
  The confirmation returned by \<^verbatim>\<open>cancel_order\<close>: the values interpolated into the
  message (role, user name, user id) and the fee.
\<close>

record cancel_response =
  msg_role :: role_value
  msg_name :: string
  msg_id :: int
  resp_cancellation_fee :: real

text \<open>The two attribute writes of \<^verbatim>\<open>cancel_order\<close> on the row it loaded.\<close>

definition set_cancelled :: "int \<Rightarrow> real \<Rightarrow> Order \<Rightarrow> Order" where
  "set_cancelled pk fee r =
     (if order_id r = pk then r\<lparr>status := cancelled, cancellation_fee := fee\<rparr> else r)"

text \<open>
  \<^verbatim>\<open>cancel_order(user_id, order_id, role)\<close>. \<open>fee_percentage\<close> is
  \<^verbatim>\<open>constants.fee_percentage\<close> (core/constants.py is not part of the sources) and
  \<open>now\<close> is \<^verbatim>\<open>datetime.now(timezone.utc)\<close>. The result is the database after the call
  and either the raised exception or the response.
\<close>

definition cancel_order ::
  "real \<Rightarrow> (int \<Rightarrow> int) \<Rightarrow> int \<Rightarrow> int \<Rightarrow> int \<Rightarrow> role_value \<Rightarrow> db
     \<Rightarrow> db \<times> (error + cancel_response)" where
  "cancel_order fee_percentage karachi now uid oid rl s =
     (case find (\<lambda>u. user_id u = uid) (users s) of
        None \<Rightarrow> (s, Inl (NotFoundError ''User not found''))
      | Some user \<Rightarrow>
          (case query_order rl uid oid (orders s) of
             None \<Rightarrow> (s, Inl (NotFoundError ''Order not found''))
           | Some ord \<Rightarrow>
               (let pt = ensure_utc karachi (pickup_time ord) in
                if now > pt
                then (s, Inl (ValidationError ''Cannot cancel order after pickup time''
                                (Some ''pickup_time'')))
                else
                  (let fee = (if pt - now \<le> one_hour
                              then (fee_percentage / 100) * price ord else 0);
                       s' = s\<lparr>orders := map (set_cancelled (order_id ord) fee) (orders s)\<rparr>
                   in (s', Inr \<lparr>msg_role = rl, msg_name = user_name user,
                                msg_id = user_id user, resp_cancellation_fee = fee\<rparr>)))))"

section \<open>Worker operations (services/worker\_service.py)\<close>

text \<open>
  \<^verbatim>\<open>str.lower()\<close>. A character of a \<open>string\<close> is a code point below 256, and on
  these \<^verbatim>\<open>str.lower()\<close> changes the letters A to Z and the capital letters from
  U+00C0 to U+00DE (U+00D7, the multiplication sign, is no letter), each to the code
  point 32 above it. A Python string with a code point from 256 on is no value of
  \<open>string\<close>: the model says nothing about such an argument (among them is U+212A,
  the Kelvin sign, which \<^verbatim>\<open>str.lower()\<close> turns into the letter k).
\<close>

definition upper_chars :: string where
  "upper_chars = ''ABCDEFGHIJKLMNOPQRSTUVWXYZ'' @
     [CHR 0xC0, CHR 0xC1, CHR 0xC2, CHR 0xC3, CHR 0xC4, CHR 0xC5, CHR 0xC6, CHR 0xC7,
      CHR 0xC8, CHR 0xC9, CHR 0xCA, CHR 0xCB, CHR 0xCC, CHR 0xCD, CHR 0xCE, CHR 0xCF,
      CHR 0xD0, CHR 0xD1, CHR 0xD2, CHR 0xD3, CHR 0xD4, CHR 0xD5, CHR 0xD6,
      CHR 0xD8, CHR 0xD9, CHR 0xDA, CHR 0xDB, CHR 0xDC, CHR 0xDD, CHR 0xDE]"

definition lower_chars :: string where
  "lower_chars = ''abcdefghijklmnopqrstuvwxyz'' @
     [CHR 0xE0, CHR 0xE1, CHR 0xE2, CHR 0xE3, CHR 0xE4, CHR 0xE5, CHR 0xE6, CHR 0xE7,
      CHR 0xE8, CHR 0xE9, CHR 0xEA, CHR 0xEB, CHR 0xEC, CHR 0xED, CHR 0xEE, CHR 0xEF,
      CHR 0xF0, CHR 0xF1, CHR 0xF2, CHR 0xF3, CHR 0xF4, CHR 0xF5, CHR 0xF6,
      CHR 0xF8, CHR 0xF9, CHR 0xFA, CHR 0xFB, CHR 0xFC, CHR 0xFD, CHR 0xFE]"

definition lower_char :: "char \<Rightarrow> char" where
  "lower_char c =
     (case map_of (zip upper_chars lower_chars) c of
        Some d \<Rightarrow> d
      | None \<Rightarrow> c)"

definition lower :: "string \<Rightarrow> string" where
  "lower str = map lower_char str"

text \<open>\<^verbatim>\<open>OrderStatus[name]\<close>: \<open>None\<close> stands for the \<^verbatim>\<open>KeyError\<close>.\<close>

definition OrderStatus_by_name :: "string \<Rightarrow> OrderStatus option" where
  "OrderStatus_by_name =
     map_of [(''created'', created), (''claimed'', claimed), (''picked_up'', picked_up),
             (''in_progress'', in_progress), (''delivered'', delivered),
             (''completed'', completed), (''cancelled'', cancelled)]"

fun OrderStatus_value :: "OrderStatus \<Rightarrow> string" where
  "OrderStatus_value created = ''created''"
| "OrderStatus_value claimed = ''claimed''"
| "OrderStatus_value picked_up = ''picked_up''"
| "OrderStatus_value in_progress = ''in_progress''"
| "OrderStatus_value delivered = ''delivered''"
| "OrderStatus_value completed = ''completed''"
| "OrderStatus_value cancelled = ''cancelled''"

text \<open>
  \<^verbatim>\<open>list_unclaimed_orders()\<close>: the rows with no worker and status \<^verbatim>\<open>created\<close>.
\<close>

definition list_unclaimed_orders :: "db \<Rightarrow> Order list" where
  "list_unclaimed_orders s =
     filter (\<lambda>r. worker_id r = None \<and> status r = created) (orders s)"

text \<open>The two attribute writes of \<^verbatim>\<open>claim_order\<close> on the row it loaded.\<close>

definition set_claimed :: "int \<Rightarrow> int \<Rightarrow> Order \<Rightarrow> Order" where
  "set_claimed pk wid r =
     (if order_id r = pk then r\<lparr>worker_id := Some wid, status := claimed\<rparr> else r)"

text \<open>
  \<^verbatim>\<open>claim_order(worker_id, order_id)\<close>. The response is the message and the order id.
\<close>

definition claim_order :: "int \<Rightarrow> int \<Rightarrow> db \<Rightarrow> db \<times> (error + string \<times> int)" where
  "claim_order wid oid s =
     (case find (\<lambda>r. order_id r = oid \<and> worker_id r = None) (orders s) of
        None \<Rightarrow> (s, Inl (NotFoundError ''Order not available for claiming''))
      | Some ord \<Rightarrow>
          (s\<lparr>orders := map (set_claimed (order_id ord) wid) (orders s)\<rparr>,
           Inr (''Order claimed successfully'', order_id ord)))"

text \<open>The attribute write of \<^verbatim>\<open>update_order_status\<close> on the row it loaded.\<close>

definition set_status :: "int \<Rightarrow> OrderStatus \<Rightarrow> Order \<Rightarrow> Order" where
  "set_status pk new_status r =
     (if order_id r = pk then r\<lparr>status := new_status\<rparr> else r)"

text \<open>
  \<^verbatim>\<open>update_order_status(worker_id, order_id, status)\<close>. The response is the message,
  the order id and the value of the new status.
\<close>

definition update_order_status ::
  "int \<Rightarrow> int \<Rightarrow> string \<Rightarrow> db \<Rightarrow> db \<times> (error + string \<times> int \<times> string)" where
  "update_order_status wid oid st s =
     (case find (\<lambda>r. order_id r = oid \<and> worker_id r = Some wid) (orders s) of
        None \<Rightarrow> (s, Inl (NotFoundError ''Order not found or not assigned to this worker''))
      | Some ord \<Rightarrow>
          (case OrderStatus_by_name (lower st) of
             None \<Rightarrow> (s, Inl (ValidationError ''Invalid status'' (Some ''status'')))
           | Some new_status \<Rightarrow>
               (s\<lparr>orders := map (set_status (order_id ord) new_status) (orders s)\<rparr>,
                Inr (''Order status updated'', order_id ord,
                     OrderStatus_value new_status))))"

section \<open>Order creation (customer, worker and admin services)\<close>

text \<open>
  \<^verbatim>\<open>a <= b\<close> on datetimes: two naive values are compared by their readings, two
  aware values by their UTC instants, and a naive with an aware value raises
  \<^verbatim>\<open>TypeError\<close>.
\<close>

fun dt_le :: "datetime \<Rightarrow> datetime \<Rightarrow> error + bool" where
  "dt_le (Naive a) (Naive b) = Inr (a \<le> b)"
| "dt_le (Aware a oa) (Aware b ob) = Inr (a - oa \<le> b - ob)"
| "dt_le (Naive a) (Aware b ob) = Inl TypeError"
| "dt_le (Aware a oa) (Naive b) = Inl TypeError"

text \<open>
  \<^verbatim>\<open>if t.tzinfo is None: t = t.replace(tzinfo=timezone.utc)\<close>: a naive value is read
  as UTC.
\<close>

fun replace_utc :: "datetime \<Rightarrow> datetime" where
  "replace_utc (Naive w) = Aware w 0"
| "replace_utc (Aware w off) = Aware w off"

text \<open>
  What a \<^verbatim>\<open>db.DateTime\<close> column keeps of a value: the wall-clock reading, without
  the \<^verbatim>\<open>tzinfo\<close>.
\<close>

fun stored_DateTime :: "datetime \<Rightarrow> datetime" where
  "stored_DateTime (Naive w) = Naive w"
| "stored_DateTime (Aware w off) = Naive w"

text \<open>The primary key the database gives a new row: one more than the largest.\<close>

definition next_order_id :: "Order list \<Rightarrow> int" where
  "next_order_id os = fold max (map order_id os) 0 + 1"

text \<open>
  \<^verbatim>\<open>Order(...)\<close> followed by \<^verbatim>\<open>db.session.add\<close> and \<^verbatim>\<open>commit\<close>: every creation path
  passes \<^verbatim>\<open>status=OrderStatus.created\<close>, and \<^verbatim>\<open>cancellation_fee\<close> takes its column
  default 0.0. With \<^verbatim>\<open>address_id=None\<close> the commit raises \<^verbatim>\<open>IntegrityError\<close> and no
  row is written. Otherwise the row is written with what the columns keep of the two
  times, and the result is the new database and the new row's id.
\<close>

definition add_order ::
  "int \<Rightarrow> int option \<Rightarrow> datetime \<Rightarrow> datetime \<Rightarrow> real \<Rightarrow> int \<Rightarrow> int option \<Rightarrow> db
     \<Rightarrow> db \<times> (error + int)" where
  "add_order cid wid pt dt pr cb aid s =
     (case aid of
        None \<Rightarrow> (s, Inl IntegrityError)
      | Some a \<Rightarrow>
          (let new = \<lparr>order_id = next_order_id (orders s), customer_id = cid,
                      worker_id = wid, pickup_time = stored_DateTime pt,
                      delivery_time = stored_DateTime dt, status = created, price = pr,
                      cancellation_fee = 0, created_by = cb, address_id = a\<rparr>
           in (s\<lparr>orders := orders s @ [new]\<rparr>, Inr (order_id new))))"

text \<open>
  customer\_service.\<^verbatim>\<open>create_order_for_customer(customer_id, pickup_time,
  delivery_time, price, address_id)\<close>, with \<open>now\<close> the current UTC instant.
\<close>

definition customer_create_order_for_customer ::
  "int \<Rightarrow> int \<Rightarrow> datetime \<Rightarrow> datetime \<Rightarrow> real \<Rightarrow> int \<Rightarrow> db
     \<Rightarrow> db \<times> (error + string \<times> int)" where
  "customer_create_order_for_customer now cid pt0 dt0 pr aid s =
     (let pt = replace_utc pt0; dt = replace_utc dt0 in
      case dt_le pt (Aware now 0) of
        Inl e \<Rightarrow> (s, Inl e)
      | Inr True \<Rightarrow>
          (s, Inl (ValidationError ''Pickup time must be in the future'' (Some ''pickup_time'')))
      | Inr False \<Rightarrow>
          (case dt_le dt pt of
             Inl e \<Rightarrow> (s, Inl e)
           | Inr True \<Rightarrow>
               (s, Inl (ValidationError ''Delivery time must be after pickup time''
                          (Some ''delivery_time'')))
           | Inr False \<Rightarrow>
               (case add_order cid None pt dt pr cid (Some aid) s of
                  (s', Inl e) \<Rightarrow> (s', Inl e)
                | (s', Inr new_id) \<Rightarrow> (s', Inr (''Order created successfully'', new_id)))))"

text \<open>
  worker\_service.\<^verbatim>\<open>create_order_for_customer(worker_id, customer_id, pickup_time,
  delivery_time, price)\<close>. \<^verbatim>\<open>customer.addresses\<close> is the list of the customer's
  address rows.
\<close>

definition worker_create_order_for_customer ::
  "int \<Rightarrow> int \<Rightarrow> datetime \<Rightarrow> datetime \<Rightarrow> real \<Rightarrow> db \<Rightarrow> db \<times> (error + string \<times> int)" where
  "worker_create_order_for_customer wid cid pt dt pr s =
     (case dt_le dt pt of
        Inl e \<Rightarrow> (s, Inl e)
      | Inr True \<Rightarrow>
          (s, Inl (ValidationError ''Delivery time must be after pickup time'' None))
      | Inr False \<Rightarrow>
          (case find (\<lambda>c. cust_id c = cid \<and> assigned_worker_id c = Some wid) (customers s) of
             None \<Rightarrow> (s, Inl (ValidationError ''Customer not assigned to this worker'' None))
           | Some cust \<Rightarrow>
               (let aid = (case filter (\<lambda>a. addr_customer_id a = cust_id cust) (addresses s) of
                             [] \<Rightarrow> None
                           | a # _ \<Rightarrow> Some (addr_id a))
                in case add_order cid (Some wid) pt dt pr wid aid s of
                     (s', Inl e) \<Rightarrow> (s', Inl e)
                   | (s', Inr new_id) \<Rightarrow> (s', Inr (''Order created by worker'', new_id)))))"

text \<open>
  admin\_service.\<^verbatim>\<open>create_order_for_customer(customer_id, worker_id, pickup_time,
  delivery_time, price, created_by, address_id)\<close>.
\<close>

definition admin_create_order_for_customer ::
  "int \<Rightarrow> int option \<Rightarrow> datetime \<Rightarrow> datetime \<Rightarrow> real \<Rightarrow> int \<Rightarrow> int option \<Rightarrow> db
     \<Rightarrow> db \<times> (error + string \<times> int)" where
  "admin_create_order_for_customer cid wid pt dt pr cb aid s =
     (case dt_le dt pt of
        Inl e \<Rightarrow> (s, Inl e)
      | Inr True \<Rightarrow>
          (s, Inl (ValidationError ''Delivery time must be after pickup time'' None))
      | Inr False \<Rightarrow>
          (case add_order cid wid pt dt pr cb aid s of
             (s', Inl e) \<Rightarrow> (s', Inl e)
           | (s', Inr new_id) \<Rightarrow> (s', Inr (''Order created by admin'', new_id))))"

section \<open>The role gate and the cancellation routes\<close>

text \<open>\<^verbatim>\<open>UserRole[name]\<close> and \<^verbatim>\<open>UserRole.value\<close>.\<close>

definition UserRole_by_name :: "string \<Rightarrow> UserRole option" where
  "UserRole_by_name =
     map_of [(''customer'', customer), (''worker'', worker), (''admin'', admin)]"

fun UserRole_value :: "UserRole \<Rightarrow> string" where
  "UserRole_value customer = ''customer''"
| "UserRole_value worker = ''worker''"
| "UserRole_value admin = ''admin''"

text \<open>
  The loop of \<^verbatim>\<open>role_required\<close> that builds \<^verbatim>\<open>allowed_roles\<close>; \<open>None\<close> is the
  early return with status 400 for a role name that is no member.
\<close>

fun allowed_roles :: "string list \<Rightarrow> string list option" where
  "allowed_roles [] = Some []"
| "allowed_roles (r # rs) =
     (case UserRole_by_name (lower r) of
        None \<Rightarrow> None
      | Some m \<Rightarrow> map_option ((#) (UserRole_value m)) (allowed_roles rs))"

text \<open>
  \<^verbatim>\<open>role_required(*roles)\<close> around a view: \<open>claim\<close> is the \<^verbatim>\<open>role\<close> claim of the
  token, a string. The gate answers with a status code (\<open>Inl\<close>) or calls the view with
  \<^verbatim>\<open>user_role\<close> bound to that same string.
\<close>

definition role_required :: "string list \<Rightarrow> string \<Rightarrow> (role_value \<Rightarrow> 'a) \<Rightarrow> nat + 'a" where
  "role_required roles claim fn =
     (case allowed_roles roles of
        None \<Rightarrow> Inl 400
      | Some allowed \<Rightarrow>
          if claim \<notin> set allowed then Inl 403 else Inr (fn (RoleStr claim)))"

text \<open>
  The two \<^verbatim>\<open>cancel_order_route\<close> views (routers/customer\_routes.py,
  routers/admin\_routes.py), with \<open>identity\<close> the user id of the token. The customer
  view turns an exception into a response of status 400 that carries its message; the
  exception is kept as the outcome here.
\<close>

definition customer_cancel_order_route ::
  "real \<Rightarrow> (int \<Rightarrow> int) \<Rightarrow> int \<Rightarrow> int \<Rightarrow> string \<Rightarrow> int \<Rightarrow> db
     \<Rightarrow> nat + db \<times> (error + cancel_response)" where
  "customer_cancel_order_route fee_percentage karachi now identity claim oid s =
     role_required [''customer''] claim
       (\<lambda>user_role. cancel_order fee_percentage karachi now identity oid user_role s)"

definition admin_cancel_order_route ::
  "real \<Rightarrow> (int \<Rightarrow> int) \<Rightarrow> int \<Rightarrow> int \<Rightarrow> string \<Rightarrow> int \<Rightarrow> db
     \<Rightarrow> nat + db \<times> (error + cancel_response)" where
  "admin_cancel_order_route fee_percentage karachi now identity claim oid s =
     role_required [''admin''] claim
       (\<lambda>user_role. cancel_order fee_percentage karachi now identity oid user_role s)"

section \<open>Example data\<close>

definition user1 :: User where
  "user1 = \<lparr>user_id = 1, user_name = ''Ali'', user_role = customer\<rparr>"

definition user2 :: User where
  "user2 = \<lparr>user_id = 2, user_name = ''Sara'', user_role = customer\<rparr>"

definition user7 :: User where
  "user7 = \<lparr>user_id = 7, user_name = ''Omar'', user_role = worker\<rparr>"

definition user9 :: User where
  "user9 = \<lparr>user_id = 9, user_name = ''Root'', user_role = admin\<rparr>"

text \<open>
  Four orders as they are read back from the table, with naive times: pickup at 07:00
  and delivery at 09:00 of day 0, which \<^verbatim>\<open>cancel_order\<close> reads as Asia/Karachi time,
  so that the pickup is two hours after instant 0. There are an unclaimed order, a
  completed one, a cancelled unclaimed one and a delivered one.
\<close>

definition order10 :: Order where
  "order10 = \<lparr>order_id = 10, customer_id = 1, worker_id = None,
     pickup_time = Naive 25200000000, delivery_time = Naive 32400000000,
     status = created, price = 1000, cancellation_fee = 0, created_by = 1,
     address_id = 5\<rparr>"

definition order11 :: Order where
  "order11 = \<lparr>order_id = 11, customer_id = 2, worker_id = Some 7,
     pickup_time = Naive 25200000000, delivery_time = Naive 32400000000,
     status = completed, price = 500, cancellation_fee = 0, created_by = 2,
     address_id = 6\<rparr>"

definition order12 :: Order where
  "order12 = \<lparr>order_id = 12, customer_id = 1, worker_id = None,
     pickup_time = Naive 25200000000, delivery_time = Naive 32400000000,
     status = cancelled, price = 800, cancellation_fee = 0, created_by = 1,
     address_id = 5\<rparr>"

definition order13 :: Order where
  "order13 = \<lparr>order_id = 13, customer_id = 2, worker_id = Some 7,
     pickup_time = Naive 25200000000, delivery_time = Naive 32400000000,
     status = delivered, price = 300, cancellation_fee = 0, created_by = 9,
     address_id = 6\<rparr>"

definition db0 :: db where
  "db0 = \<lparr>users = [user1, user2, user7, user9],
     customers = [\<lparr>cust_id = 1, assigned_worker_id = Some 7\<rparr>,
                  \<lparr>cust_id = 2, assigned_worker_id = None\<rparr>],
     addresses = [\<lparr>addr_id = 5, addr_customer_id = 1\<rparr>,
                  \<lparr>addr_id = 6, addr_customer_id = 2\<rparr>],
     orders = [order10, order11, order12, order13], order_status_history = []\<rparr>"

text \<open>Asia/Karachi as a fixed offset of five hours.\<close>

definition pkt :: "int \<Rightarrow> int" where
  "pkt w = 18000000000"

text \<open>
  A pickup at 10:00 with offset +05:00 (05:00 UTC) and a delivery at 09:00 with offset
  +00:00 of the same day 0, as \<^verbatim>\<open>isoparse\<close> returns them for
  \<^verbatim>\<open>T10:00:00+05:00\<close> and \<^verbatim>\<open>T09:00:00+00:00\<close>.
\<close>

definition pickup_1000_plus5 :: datetime where
  "pickup_1000_plus5 = Aware 36000000000 18000000000"

definition delivery_0900_utc :: datetime where
  "delivery_0900_utc = Aware 32400000000 0"

section \<open>Properties\<close>

subsection \<open>Auxiliary facts\<close>

lemmas users_db0 = db0_def user1_def user2_def user7_def user9_def

lemmas orders_db0 = db0_def order10_def order11_def order12_def order13_def

lemma find_user_db0: "find (\<lambda>u. user_id u = 1) (users db0) = Some user1"
  by (simp add: users_db0)

lemma find_user9_db0: "find (\<lambda>u. user_id u = 9) (users db0) = Some user9"
  by (simp add: users_db0)

lemma query_order10_customer:
  "query_order (RoleEnum customer) 1 10 (orders db0) = Some order10"
  by (simp add: query_order_def orders_db0)

lemma query_order11_admin:
  "query_order (RoleStr ''admin'') 9 11 (orders db0) = Some order11"
  by (simp add: query_order_def orders_db0)

text \<open>The row that \<open>query_order\<close> returns has the id that was asked for.\<close>

lemma query_order_id: "query_order rl uid oid os = Some ord \<Longrightarrow> order_id ord = oid"
  by (auto simp: query_order_def find_Some_iff split: if_splits)

text \<open>
  With a member of \<open>UserRole\<close> as role, a customer only reaches an own order; with a
  string as role, as the routes pass it, the owner is not part of the query.
\<close>

lemma query_order_enum_customer:
  "query_order (RoleEnum customer) uid oid os = Some ord \<Longrightarrow> customer_id ord = uid"
  by (auto simp: query_order_def find_Some_iff)

lemma query_order_string_role:
  "query_order (RoleStr name) uid oid os = find (\<lambda>r. order_id r = oid) os"
  by (simp add: query_order_def)

lemma customer_route_passes_string:
  "customer_cancel_order_route fee_percentage karachi now identity ''customer'' oid s =
     Inr (cancel_order fee_percentage karachi now identity oid (RoleStr ''customer'') s)"
  by (simp add: customer_cancel_order_route_def role_required_def UserRole_by_name_def
      lower_def lower_char_def upper_chars_def lower_chars_def)

text \<open>After \<open>replace_utc\<close> a comparison with an aware value never raises.\<close>

lemma dt_le_replace_utc_defined: "dt_le (replace_utc a) (Aware n off) \<noteq> Inl e"
  by (cases a) simp_all

lemma cancel_order10_by_owner:
  "cancel_order 10 pkt 0 1 10 (RoleEnum customer) db0 =
     (db0\<lparr>orders := [order10\<lparr>status := cancelled, cancellation_fee := 0\<rparr>,
                      order11, order12, order13]\<rparr>,
      Inr \<lparr>msg_role = RoleEnum customer, msg_name = ''Ali'', msg_id = 1,
           resp_cancellation_fee = 0\<rparr>)"
  by (simp add: cancel_order_def query_order_def set_cancelled_def one_hour_def pkt_def
      users_db0 orders_db0)

lemma status_order11: "status order11 = completed \<or> status order11 = cancelled"
  by (simp add: order11_def)

subsection \<open>The pickup-time cutoff\<close>

text \<open>
  C1. Once the user and the order are resolved, \<^verbatim>\<open>cancel_order\<close> raises
  ValidationError "Cannot cancel order after pickup time" whenever the current instant
  is strictly past the normalised pickup time, whatever the role value, and the
  database is the one it was given: nothing is cancelled.
\<close>

theorem cancel_order_after_pickup:
  assumes "find (\<lambda>u. user_id u = uid) (users s) = Some u"
    and "query_order rl uid oid (orders s) = Some ord"
    and "now > ensure_utc karachi (pickup_time ord)"
  shows "cancel_order fee_percentage karachi now uid oid rl s =
           (s, Inl (ValidationError ''Cannot cancel order after pickup time''
                      (Some ''pickup_time'')))"
  using assms by (simp add: cancel_order_def)

theorem cancel_order_after_pickup_witness:
  "find (\<lambda>u. user_id u = 1) (users db0) = Some user1
   \<and> query_order (RoleEnum customer) 1 10 (orders db0) = Some order10
   \<and> (7200000001::int) > ensure_utc pkt (pickup_time order10)
   \<and> cancel_order 10 pkt 7200000001 1 10 (RoleEnum customer) db0 =
       (db0, Inl (ValidationError ''Cannot cancel order after pickup time''
                    (Some ''pickup_time'')))"
proof -
  have h: "(7200000001::int) > ensure_utc pkt (pickup_time order10)"
    by (simp add: order10_def pkt_def)
  show ?thesis
    using cancel_order_after_pickup [OF find_user_db0 query_order10_customer h, of 10]
      find_user_db0 query_order10_customer h
    by simp
qed

subsection \<open>The cancellation fee\<close>

text \<open>
  C2. A cancellation that passes the cutoff succeeds, and its fee is
  \<open>fee_percentage / 100 * price\<close> when the time left until pickup is at most one hour
  and 0 when it is more; for a price \<open>\<ge> 0\<close> and a percentage between 0 and 100 the
  fee lies between 0 and the price. The fee of the response is the fee stored on the
  order.
\<close>

theorem cancel_order_fee:
  assumes "find (\<lambda>u. user_id u = uid) (users s) = Some u"
    and "query_order rl uid oid (orders s) = Some ord"
    and "\<not> now > ensure_utc karachi (pickup_time ord)"
  shows "\<exists>s' resp. cancel_order fee_percentage karachi now uid oid rl s = (s', Inr resp)
           \<and> (ensure_utc karachi (pickup_time ord) - now \<le> one_hour
                \<longrightarrow> resp_cancellation_fee resp = fee_percentage / 100 * price ord)
           \<and> (ensure_utc karachi (pickup_time ord) - now > one_hour
                \<longrightarrow> resp_cancellation_fee resp = 0)
           \<and> (0 \<le> price ord \<and> 0 \<le> fee_percentage \<and> fee_percentage \<le> 100
                \<longrightarrow> 0 \<le> resp_cancellation_fee resp
                    \<and> resp_cancellation_fee resp \<le> price ord)
           \<and> (\<forall>r \<in> set (orders s'). order_id r = oid
                \<longrightarrow> cancellation_fee r = resp_cancellation_fee resp)"
proof -
  have oid: "order_id ord = oid"
    using assms(2) by (rule query_order_id)
  have bound: "fee_percentage / 100 * price ord \<le> price ord"
    if "0 \<le> price ord" "0 \<le> fee_percentage" "fee_percentage \<le> 100"
    using that mult_right_mono [of "fee_percentage / 100" 1 "price ord"] by simp
  show ?thesis
    using assms oid bound by (auto simp: cancel_order_def Let_def set_cancelled_def)
qed

theorem cancel_order_fee_witness:
  "find (\<lambda>u. user_id u = 1) (users db0) = Some user1
   \<and> query_order (RoleEnum customer) 1 10 (orders db0) = Some order10
   \<and> \<not> (5400000000::int) > ensure_utc pkt (pickup_time order10)
   \<and> ensure_utc pkt (pickup_time order10) - 5400000000 \<le> one_hour
   \<and> map_sum id resp_cancellation_fee
        (snd (cancel_order 10 pkt 5400000000 1 10 (RoleEnum customer) db0)) = Inr 100
   \<and> (0::real) \<le> 100 \<and> (100::real) \<le> price order10"
proof -
  have h: "\<not> (5400000000::int) > ensure_utc pkt (pickup_time order10)"
    by (simp add: order10_def pkt_def)
  have w: "ensure_utc pkt (pickup_time order10) - 5400000000 \<le> one_hour"
    by (simp add: order10_def one_hour_def pkt_def)
  have p: "price order10 = 1000"
    by (simp add: order10_def)
  from cancel_order_fee [OF find_user_db0 query_order10_customer h, of 10]
  obtain s' resp where
    "cancel_order 10 pkt 5400000000 1 10 (RoleEnum customer) db0 = (s', Inr resp)"
    and "resp_cancellation_fee resp = 10 / 100 * price order10"
    using w by auto
  then show ?thesis
    using find_user_db0 query_order10_customer h w p by simp
qed

subsection \<open>Terminal states\<close>

text \<open>
  C3, as stated, fails: \<^verbatim>\<open>cancel_order\<close> never reads the status. Order 11 is
  completed; the admin's cancellation before its pickup time succeeds and turns it
  into a cancelled order.
\<close>

theorem cancel_completed_order_counterexample:
  "status order11 = completed
   \<and> cancel_order 10 pkt 0 9 11 (RoleStr ''admin'') db0 =
       (db0\<lparr>orders := [order10, order11\<lparr>status := cancelled, cancellation_fee := 0\<rparr>,
                        order12, order13]\<rparr>,
        Inr \<lparr>msg_role = RoleStr ''admin'', msg_name = ''Root'', msg_id = 9,
             resp_cancellation_fee = 0\<rparr>)"
  by (simp add: cancel_order_def query_order_def set_cancelled_def one_hour_def pkt_def
      users_db0 orders_db0)

text \<open>
  C3, amended. On an order that is completed or cancelled, \<^verbatim>\<open>cancel_order\<close> is
  governed by the pickup time alone: past the pickup time it raises ValidationError and
  leaves the database as it was; up to the pickup time it succeeds, and the order's
  status is \<open>cancelled\<close> afterwards.
\<close>

theorem cancel_order_terminal_status:
  assumes "find (\<lambda>u. user_id u = uid) (users s) = Some u"
    and "query_order rl uid oid (orders s) = Some ord"
    and "status ord = completed \<or> status ord = cancelled"
  shows "(now > ensure_utc karachi (pickup_time ord) \<longrightarrow>
            cancel_order fee_percentage karachi now uid oid rl s =
              (s, Inl (ValidationError ''Cannot cancel order after pickup time''
                         (Some ''pickup_time''))))
       \<and> (\<not> now > ensure_utc karachi (pickup_time ord) \<longrightarrow>
            \<not> isl (snd (cancel_order fee_percentage karachi now uid oid rl s))
          \<and> (\<forall>r \<in> set (orders (fst (cancel_order fee_percentage karachi now uid oid rl s))).
                order_id r = oid \<longrightarrow> status r = cancelled))"
  using assms query_order_id [OF assms(2)]
  by (auto simp: cancel_order_def Let_def set_cancelled_def)

theorem cancel_order_terminal_status_witness:
  "find (\<lambda>u. user_id u = 9) (users db0) = Some user9
   \<and> query_order (RoleStr ''admin'') 9 11 (orders db0) = Some order11
   \<and> status order11 = completed
   \<and> \<not> (0::int) > ensure_utc pkt (pickup_time order11)
   \<and> \<not> isl (snd (cancel_order 10 pkt 0 9 11 (RoleStr ''admin'') db0))
   \<and> (7200000001::int) > ensure_utc pkt (pickup_time order11)
   \<and> cancel_order 10 pkt 7200000001 9 11 (RoleStr ''admin'') db0 =
       (db0, Inl (ValidationError ''Cannot cancel order after pickup time''
                    (Some ''pickup_time'')))"
proof -
  have h0: "\<not> (0::int) > ensure_utc pkt (pickup_time order11)"
    and h1: "(7200000001::int) > ensure_utc pkt (pickup_time order11)"
    and st: "status order11 = completed"
    by (simp_all add: order11_def pkt_def)
  show ?thesis
    using cancel_order_terminal_status [OF find_user9_db0 query_order11_admin status_order11,
        where now = 0 and karachi = pkt and fee_percentage = 10]
      cancel_order_terminal_status [OF find_user9_db0 query_order11_admin status_order11,
        where now = 7200000001 and karachi = pkt and fee_percentage = 10]
      find_user9_db0 query_order11_admin h0 h1 st
    by simp
qed

subsection \<open>Claiming\<close>

text \<open>
  C4. \<^verbatim>\<open>claim_order\<close> looks for a row with the given id and no worker and does not
  read the status, unlike \<^verbatim>\<open>list_unclaimed_orders\<close>. Order 12 is cancelled and has
  no worker: the claim succeeds and makes it a claimed order of worker 7, though the
  list of unclaimed orders does not show it.
\<close>

theorem claim_cancelled_order:
  "status order12 = cancelled
   \<and> list_unclaimed_orders db0 = [order10]
   \<and> claim_order 7 12 db0 =
       (db0\<lparr>orders := [order10, order11,
                        order12\<lparr>worker_id := Some 7, status := claimed\<rparr>, order13]\<rparr>,
        Inr (''Order claimed successfully'', 12))"
  by (simp add: claim_order_def set_claimed_def list_unclaimed_orders_def orders_db0)

subsection \<open>Ownership\<close>

text \<open>
  C5. The customer route passes the role as the string of the token's claim, which is
  never equal to \<^verbatim>\<open>UserRole.customer\<close>, so the query is not restricted to the
  caller's orders. Order 10 belongs to customer 1; customer 2 cancels it through the
  customer route.
\<close>

theorem customer_cancels_foreign_order:
  "customer_id order10 = 1
   \<and> customer_cancel_order_route 10 pkt 0 2 ''customer'' 10 db0 =
       Inr (db0\<lparr>orders := [order10\<lparr>status := cancelled, cancellation_fee := 0\<rparr>,
                            order11, order12, order13]\<rparr>,
            Inr \<lparr>msg_role = RoleStr ''customer'', msg_name = ''Sara'', msg_id = 2,
                 resp_cancellation_fee = 0\<rparr>)"
  by (simp add: customer_cancel_order_route_def role_required_def UserRole_by_name_def
      lower_def lower_char_def upper_chars_def lower_chars_def
      cancel_order_def query_order_def set_cancelled_def one_hour_def pkt_def
      users_db0 orders_db0)

subsection \<open>Status updates\<close>

text \<open>
  C6. \<^verbatim>\<open>update_order_status\<close> accepts every member name of \<open>OrderStatus\<close>,
  whatever the current status. Order 13 is delivered and assigned to worker 7: the
  worker sets it back to \<open>created\<close>, and sets it to \<open>cancelled\<close>.
\<close>

theorem update_order_status_backward:
  "status order13 = delivered
   \<and> update_order_status 7 13 ''created'' db0 =
       (db0\<lparr>orders := [order10, order11, order12, order13\<lparr>status := created\<rparr>]\<rparr>,
        Inr (''Order status updated'', 13, ''created''))
   \<and> update_order_status 7 13 ''Cancelled'' db0 =
       (db0\<lparr>orders := [order10, order11, order12, order13\<lparr>status := cancelled\<rparr>]\<rparr>,
        Inr (''Order status updated'', 13, ''cancelled''))"
  by (simp add: update_order_status_def set_status_def OrderStatus_by_name_def
      lower_def lower_char_def upper_chars_def lower_chars_def orders_db0)

subsection \<open>Creation\<close>

text \<open>
  Each of the three creation paths raises ValidationError when the delivery time is at
  or before the pickup time (the customer path compares the times after reading naive
  ones as UTC), and a path that succeeds adds one row, with status \<open>created\<close>.
\<close>

lemma create_order_rejects_delivery_not_after_pickup:
  "(dt_le (replace_utc dt) (replace_utc pt) = Inr True \<longrightarrow>
      (\<exists>m f. customer_create_order_for_customer now cid pt dt pr aid s =
                (s, Inl (ValidationError m f))))
   \<and> (dt_le dt pt = Inr True \<longrightarrow>
        worker_create_order_for_customer wid cid pt dt pr s =
          (s, Inl (ValidationError ''Delivery time must be after pickup time'' None)))
   \<and> (dt_le dt pt = Inr True \<longrightarrow>
        admin_create_order_for_customer cid wido pt dt pr cb aido s =
          (s, Inl (ValidationError ''Delivery time must be after pickup time'' None)))"
  by (auto simp: customer_create_order_for_customer_def worker_create_order_for_customer_def
      admin_create_order_for_customer_def Let_def dt_le_replace_utc_defined
      split: sum.splits bool.splits)

lemma add_order_row:
  "add_order cid wid pt dt pr cb aid s = (s', Inr new_id) \<Longrightarrow>
     \<exists>r. orders s' = orders s @ [r] \<and> status r = created
        \<and> pickup_time r = stored_DateTime pt \<and> delivery_time r = stored_DateTime dt"
  by (auto simp: add_order_def Let_def split: option.splits)

lemma create_order_status_created:
  "(customer_create_order_for_customer now cid pt dt pr aid s = (s1, Inr resp1) \<longrightarrow>
      (\<exists>r. orders s1 = orders s @ [r] \<and> status r = created))
   \<and> (worker_create_order_for_customer wid cid pt dt pr s = (s2, Inr resp2) \<longrightarrow>
        (\<exists>r. orders s2 = orders s @ [r] \<and> status r = created))
   \<and> (admin_create_order_for_customer cid wido pt dt pr cb aido s = (s3, Inr resp3) \<longrightarrow>
        (\<exists>r. orders s3 = orders s @ [r] \<and> status r = created))"
  by (auto simp: customer_create_order_for_customer_def worker_create_order_for_customer_def
      admin_create_order_for_customer_def Let_def
      split: sum.splits bool.splits option.splits prod.splits dest: add_order_row)

text \<open>
  C7. The creation paths compare two aware times by their UTC instants, but the row
  keeps the wall-clock readings only. A pickup at 10:00+05:00 with a delivery at
  09:00+00:00 passes the check of every path: the delivery is four hours after the
  pickup. Each path writes a row whose delivery time, 09:00, is before its pickup
  time, 10:00.
\<close>

theorem create_order_stored_times_reversed:
  "dt_le delivery_0900_utc pickup_1000_plus5 = Inr False
   \<and> customer_create_order_for_customer 0 1 pickup_1000_plus5 delivery_0900_utc 250 5 db0 =
       (db0\<lparr>orders := [order10, order11, order12, order13,
          \<lparr>order_id = 14, customer_id = 1, worker_id = None,
           pickup_time = Naive 36000000000, delivery_time = Naive 32400000000,
           status = created, price = 250, cancellation_fee = 0, created_by = 1,
           address_id = 5\<rparr>]\<rparr>,
        Inr (''Order created successfully'', 14))
   \<and> worker_create_order_for_customer 7 1 pickup_1000_plus5 delivery_0900_utc 250 db0 =
       (db0\<lparr>orders := [order10, order11, order12, order13,
          \<lparr>order_id = 14, customer_id = 1, worker_id = Some 7,
           pickup_time = Naive 36000000000, delivery_time = Naive 32400000000,
           status = created, price = 250, cancellation_fee = 0, created_by = 7,
           address_id = 5\<rparr>]\<rparr>,
        Inr (''Order created by worker'', 14))
   \<and> admin_create_order_for_customer 1 (Some 7) pickup_1000_plus5 delivery_0900_utc 250 9
         (Some 5) db0 =
       (db0\<lparr>orders := [order10, order11, order12, order13,
          \<lparr>order_id = 14, customer_id = 1, worker_id = Some 7,
           pickup_time = Naive 36000000000, delivery_time = Naive 32400000000,
           status = created, price = 250, cancellation_fee = 0, created_by = 9,
           address_id = 5\<rparr>]\<rparr>,
        Inr (''Order created by admin'', 14))
   \<and> dt_le (Naive 32400000000) (Naive 36000000000) = Inr True"
  by (simp add: customer_create_order_for_customer_def worker_create_order_for_customer_def
      admin_create_order_for_customer_def add_order_def next_order_id_def
      pickup_1000_plus5_def delivery_0900_utc_def orders_db0)

subsection \<open>The status history\<close>

text \<open>
  C8. No operation writes a row of \<open>OrderStatusHistory\<close>: a claim, a status update
  and a cancellation each succeed on the example database and leave the history
  empty.
\<close>

theorem no_history_row_written:
  "order_status_history db0 = []
   \<and> snd (claim_order 7 10 db0) = Inr (''Order claimed successfully'', 10)
   \<and> order_status_history (fst (claim_order 7 10 db0)) = []
   \<and> snd (update_order_status 7 13 ''completed'' db0) =
        Inr (''Order status updated'', 13, ''completed'')
   \<and> order_status_history (fst (update_order_status 7 13 ''completed'' db0)) = []
   \<and> snd (cancel_order 10 pkt 0 1 10 (RoleStr ''customer'') db0) =
        Inr \<lparr>msg_role = RoleStr ''customer'', msg_name = ''Ali'', msg_id = 1,
             resp_cancellation_fee = 0\<rparr>
   \<and> order_status_history (fst (cancel_order 10 pkt 0 1 10 (RoleStr ''customer'') db0)) = []"
  by (simp add: claim_order_def update_order_status_def cancel_order_def query_order_def
      OrderStatus_by_name_def lower_def lower_char_def upper_chars_def lower_chars_def
      one_hour_def pkt_def
      users_db0 orders_db0)

subsection \<open>Failed calls and the frame of a cancellation\<close>

text \<open>
  C9. A call of \<^verbatim>\<open>cancel_order\<close>, \<^verbatim>\<open>claim_order\<close> or \<^verbatim>\<open>update_order_status\<close> that
  raises returns the database it was given: every check comes before the first write.
\<close>

theorem failed_call_leaves_store:
  "(isl (snd (cancel_order fee_percentage karachi now uid oid1 rl s))
      \<longrightarrow> fst (cancel_order fee_percentage karachi now uid oid1 rl s) = s)
   \<and> (isl (snd (claim_order wid2 oid2 s)) \<longrightarrow> fst (claim_order wid2 oid2 s) = s)
   \<and> (isl (snd (update_order_status wid3 oid3 st s))
      \<longrightarrow> fst (update_order_status wid3 oid3 st s) = s)"
  by (auto simp: cancel_order_def claim_order_def update_order_status_def Let_def
      split: option.splits)

theorem failed_call_leaves_store_witness:
  "isl (snd (cancel_order 10 pkt 0 99 10 (RoleEnum customer) db0))
   \<and> fst (cancel_order 10 pkt 0 99 10 (RoleEnum customer) db0) = db0
   \<and> isl (snd (claim_order 7 11 db0))
   \<and> fst (claim_order 7 11 db0) = db0
   \<and> isl (snd (update_order_status 7 13 ''returned'' db0))
   \<and> fst (update_order_status 7 13 ''returned'' db0) = db0"
proof -
  have a: "isl (snd (cancel_order 10 pkt 0 99 10 (RoleEnum customer) db0))"
    by (simp add: cancel_order_def users_db0)
  have b: "isl (snd (claim_order 7 11 db0))"
    by (simp add: claim_order_def orders_db0)
  have c: "isl (snd (update_order_status 7 13 ''returned'' db0))"
    by (simp add: update_order_status_def OrderStatus_by_name_def lower_def lower_char_def
        upper_chars_def lower_chars_def
        orders_db0)
  show ?thesis
    using failed_call_leaves_store
      [of 10 pkt 0 99 10 "RoleEnum customer" db0 7 11 7 13 "''returned''"]
      a b c
    by simp
qed

text \<open>
  C10. A successful \<^verbatim>\<open>cancel_order\<close> leaves the other tables as they are and keeps
  every row of the order table in its place; of no row does it change the id, customer,
  worker, pickup time, delivery time, price, address or creator; a row with another id
  is unchanged, and the row with the given id differs from what it was in
  \<open>status\<close> and \<open>cancellation_fee\<close> alone.
\<close>

theorem cancel_order_frame:
  assumes "cancel_order fee_percentage karachi now uid oid rl s = (s', Inr resp)"
  shows "users s' = users s \<and> customers s' = customers s \<and> addresses s' = addresses s
     \<and> order_status_history s' = order_status_history s
     \<and> length (orders s') = length (orders s)
     \<and> (\<forall>i < length (orders s).
          order_id (orders s' ! i) = order_id (orders s ! i)
        \<and> customer_id (orders s' ! i) = customer_id (orders s ! i)
        \<and> worker_id (orders s' ! i) = worker_id (orders s ! i)
        \<and> pickup_time (orders s' ! i) = pickup_time (orders s ! i)
        \<and> delivery_time (orders s' ! i) = delivery_time (orders s ! i)
        \<and> price (orders s' ! i) = price (orders s ! i)
        \<and> address_id (orders s' ! i) = address_id (orders s ! i)
        \<and> created_by (orders s' ! i) = created_by (orders s ! i)
        \<and> (order_id (orders s ! i) \<noteq> oid \<longrightarrow> orders s' ! i = orders s ! i)
        \<and> (order_id (orders s ! i) = oid \<longrightarrow>
             orders s' ! i = (orders s ! i)\<lparr>status := cancelled,
                                cancellation_fee := resp_cancellation_fee resp\<rparr>))"
  using assms
  by (auto simp: cancel_order_def Let_def set_cancelled_def split: option.splits if_splits
      dest: query_order_id)

theorem cancel_order_frame_witness:
  "cancel_order 10 pkt 0 1 10 (RoleEnum customer) db0 =
     (db0\<lparr>orders := [order10\<lparr>status := cancelled, cancellation_fee := 0\<rparr>,
                      order11, order12, order13]\<rparr>,
      Inr \<lparr>msg_role = RoleEnum customer, msg_name = ''Ali'', msg_id = 1,
           resp_cancellation_fee = 0\<rparr>)
   \<and> users (fst (cancel_order 10 pkt 0 1 10 (RoleEnum customer) db0)) = users db0
   \<and> length (orders (fst (cancel_order 10 pkt 0 1 10 (RoleEnum customer) db0))) = 4
   \<and> orders (fst (cancel_order 10 pkt 0 1 10 (RoleEnum customer) db0)) ! 1 = order11
   \<and> customer_id (orders (fst (cancel_order 10 pkt 0 1 10 (RoleEnum customer) db0)) ! 0) = 1"
proof -
  have len: "length (orders db0) = 4" and o1: "orders db0 ! 1 = order11"
    and o0: "orders db0 ! 0 = order10"
    and ids: "order_id order11 \<noteq> 10" "order_id order10 = 10" "customer_id order10 = 1"
    by (simp_all add: orders_db0)
  note f = cancel_order_frame [OF cancel_order10_by_owner]
  from f have "users (fst (cancel_order 10 pkt 0 1 10 (RoleEnum customer) db0)) = users db0"
    by (simp add: cancel_order10_by_owner)
  moreover from f len
  have "length (orders (fst (cancel_order 10 pkt 0 1 10 (RoleEnum customer) db0))) = 4"
    by (simp add: cancel_order10_by_owner)
  moreover from f len o1 ids
  have "orders (fst (cancel_order 10 pkt 0 1 10 (RoleEnum customer) db0)) ! 1 = order11"
    by (simp add: cancel_order10_by_owner)
  moreover from f len o0 ids
  have "customer_id (orders (fst (cancel_order 10 pkt 0 1 10 (RoleEnum customer) db0)) ! 0) = 1"
    by (simp add: cancel_order10_by_owner)
  ultimately show ?thesis
    using cancel_order10_by_owner by simp
qed

end
